theory Spec2Isabelle
  imports Main "HOL-Library.Word"
begin

unbundle bit_operations_syntax

section \<open>Errors\<close>

text \<open>
  Go errors are values.  \<open>New\<close> is \<^verbatim>\<open>errors.New\<close>, \<open>Wrap\<close> is
  \<^verbatim>\<open>errors.Wrap\<close> (the wrapped error first, the context string second),
  \<open>Errorf\<close> keeps the format string and its arguments, and \<open>Ext\<close> is an error
  handed back by a library or by a part of the program that is outside the model.
\<close>

datatype arg = AInt int | AStr string | ABool bool

datatype error = New string | Wrap error string | Errorf string "arg list" | Ext string

section \<open>The file transfer test (utils/test\_file\_transfers\_utils.go)\<close>







datatype TokenProfile = WLCG | Scitokens2 | NoProfile


record url =
  urlRest :: string \<comment> \<open>what \<^verbatim>\<open>url.Parse\<close> found, the path apart\<close>
  urlPath :: string

record request =
  reqMethod :: string
  reqUrl :: string
  reqAuthorization :: string
  reqBody :: string

record response =
  StatusCode :: int
  Status :: string
  respBody :: "error + string" \<comment> \<open>what \<^verbatim>\<open>io.ReadAll(resp.Body)\<close> gives\<close>









section \<open>Control flow that does not return\<close>

text \<open>A Go function either returns a value or panics.\<close>

datatype 'a outcome = Returns 'a | Panics string

section \<open>Strings and hexadecimal (strings, encoding/hex)\<close>

definition HasPrefix :: "string \<Rightarrow> string \<Rightarrow> bool" where
  "HasPrefix s pre = (take (length pre) s = pre)"


definition TrimPrefix :: "string \<Rightarrow> string \<Rightarrow> string" where
  "TrimPrefix s pre = (if HasPrefix s pre then drop (length pre) s else s)"


text \<open>\<^verbatim>\<open>strings.Split(s, " ")\<close>: the fields between single spaces, empty ones kept.\<close>

fun splitSpace :: "string \<Rightarrow> string list" where
  "splitSpace [] = [[]]"
| "splitSpace (c # cs) =
     (if c = CHR '' '' then [] # splitSpace cs
      else (case splitSpace cs of [] \<Rightarrow> [[c]] | f # fs \<Rightarrow> (c # f) # fs))"

definition hextable :: string where
  "hextable = ''0123456789abcdef''"

definition EncodeToString :: "string \<Rightarrow> string" where
  "EncodeToString bs =
     concat (map (\<lambda>b. [hextable ! (of_char b div 16), hextable ! (of_char b mod 16)]) bs)"

definition fromHexChar :: "char \<Rightarrow> nat option" where
  "fromHexChar c =
     (let n = (of_char c :: nat) in
      if 48 \<le> n \<and> n \<le> 57 then Some (n - 48)
      else if 97 \<le> n \<and> n \<le> 102 then Some (n - 97 + 10)
      else if 65 \<le> n \<and> n \<le> 70 then Some (n - 65 + 10)
      else None)"

fun DecodeString :: "string \<Rightarrow> error + string" where
  "DecodeString [] = Inr []"
| "DecodeString [c] =
     (case fromHexChar c of
        None \<Rightarrow> Inl (Errorf ''encoding/hex: invalid byte: %#U'' [AStr [c]])
      | Some _ \<Rightarrow> Inl (New ''encoding/hex: odd length hex string''))"
| "DecodeString (p # q # cs) =
     (case fromHexChar p of
        None \<Rightarrow> Inl (Errorf ''encoding/hex: invalid byte: %#U'' [AStr [p]])
      | Some a \<Rightarrow>
          (case fromHexChar q of
             None \<Rightarrow> Inl (Errorf ''encoding/hex: invalid byte: %#U'' [AStr [q]])
           | Some b \<Rightarrow>
               (case DecodeString cs of
                  Inl e \<Rightarrow> Inl e
                | Inr rest \<Rightarrow> Inr (char_of (a * 16 + b) # rest))))"

section \<open>The registry (registry/registry.go)\<close>

subsection \<open>The response writer of a request\<close>

text \<open>
  A handler answers through the context of the web framework.  Every call of
  \<^verbatim>\<open>ctx.JSON\<close>, \<^verbatim>\<open>ctx.String\<close> or \<^verbatim>\<open>ctx.AbortWithStatusJSON\<close> is recorded
  with its status code and body, oldest first.  The framework sends the header with the
  first body it writes, and a later call cannot change the status any more (it only
  appends its body); a handler that writes nothing answers with the default status 200.
\<close>

type_synonym key = string
type_synonym jwks = "key list"

datatype jval =
    JStr string
  | JErr error
  | JStrErr string error \<comment> \<open>a string followed by \<^verbatim>\<open>err.Error()\<close>\<close>

datatype body =
    H "(string \<times> jval) list" \<comment> \<open>\<^verbatim>\<open>gin.H\<close> and other string-keyed maps\<close>
  | JwksBody jwks
  | StatusRes bool \<comment> \<open>\<^verbatim>\<open>checkStatusRes{Approved}\<close>\<close>
  | ConfigRes string \<comment> \<open>\<^verbatim>\<open>NamespaceConfig{JwksUri}\<close>\<close>
  | Text string

record ginContext =
  written :: "(int \<times> body) list"
  aborted :: bool

definition newContext :: ginContext where
  "newContext = \<lparr>written = [], aborted = False\<rparr>"

definition JSON :: "int \<Rightarrow> body \<Rightarrow> ginContext \<Rightarrow> ginContext" where
  "JSON code obj ctx = ctx\<lparr>written := written ctx @ [(code, obj)]\<rparr>"

definition AbortWithStatusJSON :: "int \<Rightarrow> body \<Rightarrow> ginContext \<Rightarrow> ginContext" where
  "AbortWithStatusJSON code obj ctx = (JSON code obj ctx)\<lparr>aborted := True\<rparr>"

definition responseStatus :: "ginContext \<Rightarrow> int" where
  "responseStatus ctx = (case written ctx of [] \<Rightarrow> 200 | (code, _) # _ \<Rightarrow> code)"

definition StatusOK :: int where "StatusOK = 200"
definition StatusCreated :: int where "StatusCreated = 201"
definition StatusMultipleChoices :: int where "StatusMultipleChoices = 300"
definition StatusBadRequest :: int where "StatusBadRequest = 400"
definition StatusForbidden :: int where "StatusForbidden = 403"
definition StatusInternalServerError :: int where "StatusInternalServerError = 500"

subsection \<open>Data\<close>

text \<open>
  Modelled from the spec: the declarations of \<^verbatim>\<open>Namespace\<close>, \<^verbatim>\<open>AdminMetadata\<close> and
  of the registration status live in the database half of the registry package, which is
  not among the sources.  The fields are the columns the specification lists; a status is
  a string, so that the zero value \<^verbatim>\<open>AdminMetadata{}\<close> has the empty status.
\<close>

type_synonym RegistrationStatus = string

definition Pending :: RegistrationStatus where "Pending = ''Pending''"
definition Approved :: RegistrationStatus where "Approved = ''Approved''"
definition Denied :: RegistrationStatus where "Denied = ''Denied''"

record AdminMetadata =
  amUserID :: string
  amDescription :: string
  amSiteName :: string
  amInstitution :: string
  amStatus :: RegistrationStatus

definition emptyMetadata :: AdminMetadata where
  "emptyMetadata = \<lparr>amUserID = [], amDescription = [], amSiteName = [], amInstitution = [],
     amStatus = []\<rparr>"

record Namespace =
  nsPrefix :: string
  nsPubkey :: string
  nsIdentity :: string
  nsAdminMetadata :: AdminMetadata

definition emptyNamespace :: Namespace where
  "emptyNamespace = \<lparr>nsPrefix = [], nsPubkey = [], nsIdentity = [], nsAdminMetadata = emptyMetadata\<rparr>"

text \<open>
  Modelled from the spec: the scope constant \<^verbatim>\<open>token_scopes.Pelican_NamespaceDelete\<close>
  is declared in a package that is not among the sources.
\<close>

definition Pelican_NamespaceDelete :: string where
  "Pelican_NamespaceDelete = ''pelican.namespace_delete''"

record registrationData =
  ClientNonce :: string
  ClientPayload :: string
  ClientSignature :: string
  ServerNonce :: string
  ServerPayload :: string
  ServerSignature :: string
  Pubkey :: string
  AccessToken :: string
  Identity :: string
  IdentityRequired :: string
  DeviceCode :: string
  Prefix :: string

record checkStatusReq =
  csPrefix :: string

datatype rawkey = EcdsaPublicKey string | OtherRawKey string

datatype claim = ClaimString string | ClaimOther

record jwtToken =
  claims :: "(string \<times> claim) list"

record oidcConfig =
  ClientID :: string
  ClientSecret :: string
  Scopes :: "string list"
  UserInfoURL :: string
  DeviceAuthURL :: string
  TokenURL :: string

record DeviceResponse =
  VerificationURLComplete :: string
  drDeviceCode :: string

record TokenResponse =
  trAccessToken :: string
  trError :: string

text \<open>
  What the handlers reach outside this file.  The database functions, the validation
  helpers and the key loader belong to the registry and configuration packages but are not
  among the sources, so they are parameters here, as are the libraries (random bytes,
  SHA-256 and ECDSA, the token parser, the OIDC client, URL handling) and the two approval
  switches of the configuration.  The database is a value of type \<open>'db\<close>.
\<close>

record 'db registry_env =
  namespaceExists :: "string \<Rightarrow> 'db \<Rightarrow> error + bool"
  namespaceExistsByPrefix :: "string \<Rightarrow> 'db \<Rightarrow> error + bool"
  getNamespaceJwksByPrefix :: "string \<Rightarrow> 'db \<Rightarrow> error + (jwks \<times> AdminMetadata option)"
  getNamespaceByPrefix :: "string \<Rightarrow> 'db \<Rightarrow> Namespace option \<times> error option"
  addNamespace :: "Namespace \<Rightarrow> 'db \<Rightarrow> error option \<times> 'db"
  deleteNamespace :: "string \<Rightarrow> 'db \<Rightarrow> error option \<times> 'db"
  validateJwks :: "string \<Rightarrow> error + key"
  validatePrefix :: "string \<Rightarrow> string \<times> error option"
  validateKeyChaining :: "string \<Rightarrow> key \<Rightarrow> 'db \<Rightarrow> error option \<times> error option"
  keyRaw :: "key \<Rightarrow> error + rawkey"
  jsonMarshal :: "string \<Rightarrow> error + string"
  randRead :: "nat \<Rightarrow> error + string"
  sha256 :: "string \<Rightarrow> string"
  loadServerKeys :: "error + string"
  publicKeyOf :: "string \<Rightarrow> string"
  ecdsaSign :: "string \<Rightarrow> string \<Rightarrow> error + string"
  ecdsaVerifyASN1 :: "string \<Rightarrow> string \<Rightarrow> string \<Rightarrow> bool"
  jwtParse :: "string \<Rightarrow> jwks \<Rightarrow> error + jwtToken"
  jwtValidateTime :: "jwtToken \<Rightarrow> error option"
  Registry_RequireCacheApproval :: bool
  Registry_RequireOriginApproval :: bool
  ExternalWebUrl :: string
  parseUrl :: "string \<Rightarrow> error + url"
  JoinPath :: "string list \<Rightarrow> error + string"
  printUrl :: "url \<Rightarrow> string"
  ServerOIDCClient :: "error + oidcConfig"
  PostForm :: "string \<Rightarrow> (string \<times> string) list \<Rightarrow> error + response"
  unmarshalDeviceResponse :: "string \<Rightarrow> error + DeviceResponse"
  unmarshalTokenResponse :: "string \<Rightarrow> error + TokenResponse"

subsection \<open>The key-sign challenge\<close>

definition errorBody :: "string \<Rightarrow> body" where
  "errorBody msg = H [(''error'', JStr msg)]"

definition generateNonce :: "'db registry_env \<Rightarrow> error + string" where
  "generateNonce env =
     (case randRead env 32 of
        Inl err \<Rightarrow> Inl err
      | Inr nonce \<Rightarrow> Inr (EncodeToString nonce))"

definition signPayload :: "'db registry_env \<Rightarrow> string \<Rightarrow> string \<Rightarrow> error + string" where
  "signPayload env payload privateKey = ecdsaSign env privateKey (sha256 env payload)"

definition verifySignature :: "'db registry_env \<Rightarrow> string \<Rightarrow> string \<Rightarrow> string \<Rightarrow> bool" where
  "verifySignature env payload signature publicKey =
     ecdsaVerifyASN1 env publicKey (sha256 env payload) signature"

definition keySignChallengeInit ::
  "'db registry_env \<Rightarrow> ginContext \<Rightarrow> registrationData \<Rightarrow> error option \<times> ginContext" where
  "keySignChallengeInit env ctx data =
     (case generateNonce env of
        Inl err \<Rightarrow>
          (Some (Wrap err ''Failed to generate nonce for key-sign challenge''),
           JSON 500 (errorBody ''Failed to generate nonce for key sign challenge'') ctx)
      | Inr serverNonce \<Rightarrow>
          let serverPayload = ClientNonce data @ ServerNonce data in
          (case loadServerKeys env of
             Inl err \<Rightarrow>
               (Some (Wrap err ''Failed to load the server's private key''),
                JSON 500 (errorBody ''Server is unable to generate a key sign challenge'') ctx)
           | Inr privateKey \<Rightarrow>
               (case signPayload env serverPayload privateKey of
                  Inl err \<Rightarrow>
                    (Some (Wrap err ''Failed to sign payload for key-sign challenge''),
                     JSON 500 (errorBody ''Failure when signing the challenge'') ctx)
                | Inr serverSignature \<Rightarrow>
                    (None,
                     JSON StatusOK (H [(''server_nonce'', JStr serverNonce),
                                       (''client_nonce'', JStr (ClientNonce data)),
                                       (''server_payload'', JStr (EncodeToString serverPayload)),
                                       (''server_signature'', JStr (EncodeToString serverSignature))])
                       ctx))))"

definition addNamespaceHandler ::
  "'db registry_env \<Rightarrow> ginContext \<Rightarrow> registrationData \<Rightarrow> 'db \<Rightarrow> error option \<times> ginContext \<times> 'db" where
  "addNamespaceHandler env ctx data db =
     (case jsonMarshal env (Pubkey data) of
        Inl err \<Rightarrow>
          (Some (Wrap err (''Failed to marshal the pubkey for prefix '' @ Prefix data)), ctx, db)
      | Inr pubkeyData \<Rightarrow>
          let ns = emptyNamespace\<lparr>nsPrefix := Prefix data, nsPubkey := pubkeyData,
                     nsIdentity := (if Identity data \<noteq> [] then Identity data else []),
                     nsAdminMetadata := emptyMetadata\<lparr>amStatus := Pending\<rparr>\<rparr>
          in (case addNamespace env ns db of
                (Some err, db') \<Rightarrow> (Some (Wrap err (''Failed to add prefix '' @ Prefix data)), ctx, db')
              | (None, db') \<Rightarrow> (None, JSON StatusCreated (H [(''status'', JStr ''success'')]) ctx, db')))"

definition registerVerified ::
  "'db registry_env \<Rightarrow> ginContext \<Rightarrow> registrationData \<Rightarrow> key \<Rightarrow> 'db
     \<Rightarrow> error option \<times> ginContext \<times> 'db" where
  \<comment> \<open>the body of \<^verbatim>\<open>if action == "register"\<close> in \<^verbatim>\<open>keySignChallengeCommit\<close>\<close>
  "registerVerified env ctx data key db =
     (case namespaceExists env (Prefix data) db of
        Inl err \<Rightarrow>
          (Some (Wrap err ''Server encountered an error checking if namespace already exists''), ctx, db)
      | Inr exists \<Rightarrow>
          if exists then
            (None,
             AbortWithStatusJSON 200
               (H [(''message'', JStr (''The prefix '' @ Prefix data
                                        @ '' is already registered -- nothing else to do!''))]) ctx,
             db)
          else
            (case validatePrefix env (Prefix data) of
               (reqPrefix, Some err) \<Rightarrow>
                 (Some (Wrap err (''Requested namespace '' @ reqPrefix @ '' failed validation'')), ctx, db)
             | (reqPrefix, None) \<Rightarrow>
                 let data' = data\<lparr>Prefix := reqPrefix\<rparr> in
                 (case validateKeyChaining env reqPrefix key db of
                    (Some valErr, sysErr) \<Rightarrow>
                      (Some valErr, JSON StatusForbidden (H [(''error'', JErr valErr)]) ctx, db)
                  | (None, Some sysErr) \<Rightarrow>
                      (Some sysErr, JSON StatusInternalServerError (H [(''error'', JErr sysErr)]) ctx, db)
                  | (None, None) \<Rightarrow>
                      (case addNamespaceHandler env ctx data' db of
                         (Some err, ctx', db') \<Rightarrow>
                           (Some (Wrap err ''Failed while trying to add to database''),
                            JSON 500 (errorBody
                              ''The server encountered an error while attempting to add the prefix to its database'')
                              ctx',
                            db')
                       | (None, ctx', db') \<Rightarrow> (None, ctx', db')))))"

definition keySignChallengeCommit ::
  "'db registry_env \<Rightarrow> ginContext \<Rightarrow> registrationData \<Rightarrow> string \<Rightarrow> 'db
     \<Rightarrow> (error option \<times> ginContext \<times> 'db) outcome" where
  "keySignChallengeCommit env ctx data action db =
     (case validateJwks env (Pubkey data) of
        Inl err \<Rightarrow> Returns (Some err, ctx, db)
      | Inr key \<Rightarrow>
     (case keyRaw env key of
        Inl err \<Rightarrow> Returns (Some (Wrap err ''failed to generate raw pubkey from jwks''), ctx, db)
      | Inr rawkey \<Rightarrow>
     let clientPayload = ClientNonce data @ ServerNonce data in
     (case DecodeString (ClientSignature data) of
        Inl err \<Rightarrow>
          Returns (Some (Wrap err ''Failed to decode the client's signature''),
                   JSON 500 (errorBody ''Failed to decode client's signature'') ctx, db)
      | Inr clientSignature \<Rightarrow>
     (case rawkey of
        OtherRawKey _ \<Rightarrow> Panics ''interface conversion: interface {} is not *ecdsa.PublicKey''
      | EcdsaPublicKey clientPubkey \<Rightarrow>
     let clientVerified = verifySignature env clientPayload clientSignature clientPubkey in
     (case DecodeString (ServerPayload data) of
        Inl err \<Rightarrow>
          Returns (Some (Wrap err ''Failed to decode the server's payload''),
                   JSON 500 (errorBody ''Failed to decode the server's payload'') ctx, db)
      | Inr serverPayload \<Rightarrow>
     (case DecodeString (ServerSignature data) of
        Inl err \<Rightarrow>
          Returns (Some (Wrap err ''Failed to decode the server's signature''),
                   JSON 500 (errorBody ''Failed to decode the server's signature'') ctx, db)
      | Inr serverSignature \<Rightarrow>
     (case loadServerKeys env of
        Inl err \<Rightarrow>
          Returns (Some (Wrap err ''Failed to decode the server's private key''),
                   JSON 500 (errorBody ''Failed to load server's private key'') ctx, db)
      | Inr serverPrivateKey \<Rightarrow>
     let serverPubkey = publicKeyOf env serverPrivateKey;
         serverVerified = verifySignature env serverPayload serverSignature serverPubkey
     in if clientVerified \<and> serverVerified then
          if action = ''register'' then Returns (registerVerified env ctx data key db)
          else Returns (None, ctx, db)
        else
          Returns (Some (Errorf (''Either the server or the client could not be verified: ''
                                 @ ''server verified:%t, client verified:%t'')
                           [ABool serverVerified, ABool clientVerified]),
                   JSON 500 (errorBody (''Server was either unable to verify the client's public key, ''
                                        @ ''or an encountered an error with its own'')) ctx,
                   db))))))))"

definition keySignChallenge ::
  "'db registry_env \<Rightarrow> ginContext \<Rightarrow> registrationData \<Rightarrow> string \<Rightarrow> 'db
     \<Rightarrow> (error option \<times> ginContext \<times> 'db) outcome" where
  "keySignChallenge env ctx data action db =
     (if ClientNonce data \<noteq> [] \<and> ClientPayload data \<noteq> [] \<and> ClientSignature data \<noteq> [] \<and>
         ServerNonce data \<noteq> [] \<and> ServerPayload data \<noteq> [] \<and> ServerSignature data \<noteq> [] then
        (case keySignChallengeCommit env ctx data action db of
           Panics m \<Rightarrow> Panics m
         | Returns (Some err, ctx', db') \<Rightarrow> Returns (Some (Wrap err ''commit failed''), ctx', db')
         | Returns (None, ctx', db') \<Rightarrow> Returns (None, ctx', db'))
      else if ClientNonce data \<noteq> [] then
        (case keySignChallengeInit env ctx data of
           (Some err, ctx') \<Rightarrow> Returns (Some (Wrap err ''init failed''), ctx', db)
         | (None, ctx') \<Rightarrow> Returns (None, ctx', db))
      else
        Returns (Some (New ''key sign challenge was missing parameters''),
                 JSON StatusMultipleChoices (errorBody ''MISSING PARAMETERS'') ctx, db))"

subsection \<open>The handlers\<close>

fun joinSpace :: "string list \<Rightarrow> string" where
  "joinSpace [] = []"
| "joinSpace [x] = x"
| "joinSpace (x # y # ys) = x @ '' '' @ joinSpace (y # ys)"

definition challengeThenReply ::
  "'db registry_env \<Rightarrow> ginContext \<Rightarrow> registrationData \<Rightarrow> 'db \<Rightarrow> (ginContext \<times> 'db) outcome" where
  \<comment> \<open>the call of \<^verbatim>\<open>keySignChallenge\<close> in \<^verbatim>\<open>cliRegisterNamespace\<close>, with its error reply\<close>
  "challengeThenReply env ctx reqData db =
     (case keySignChallenge env ctx reqData ''register'' db of
        Panics m \<Rightarrow> Panics m
      | Returns (Some err, ctx', db') \<Rightarrow>
          Returns (JSON StatusInternalServerError
                     (H [(''error'', JStrErr ''server encountered an error during key-sign challenge: '' err)])
                     ctx', db')
      | Returns (None, ctx', db') \<Rightarrow> Returns (ctx', db'))"

definition deviceCodeFlow :: "'db registry_env \<Rightarrow> ginContext \<Rightarrow> registrationData \<Rightarrow> oidcConfig \<Rightarrow> ginContext" where
  \<comment> \<open>the last \<^verbatim>\<open>if/else\<close> of \<^verbatim>\<open>cliRegisterNamespace\<close>\<close>
  "deviceCodeFlow env ctx reqData cfg =
     (if DeviceCode reqData = [] then
        (case PostForm env (DeviceAuthURL cfg)
                [(''client_id'', ClientID cfg), (''client_secret'', ClientSecret cfg),
                 (''scope'', joinSpace (Scopes cfg))] of
           Inl err \<Rightarrow>
             JSON StatusInternalServerError (errorBody ''server encountered error requesting device code'') ctx
         | Inr resp \<Rightarrow>
             if StatusCode resp \<noteq> 200 then
               JSON StatusInternalServerError
                 (errorBody ''server received non-200 status code from OIDC device auth endpoint'') ctx
             else
               (case respBody resp of
                  Inl err \<Rightarrow>
                    JSON StatusInternalServerError
                      (errorBody ''server encountered error reading response from device auth endpoint'') ctx
                | Inr body \<Rightarrow>
                    (case unmarshalDeviceResponse env body of
                       Inl err \<Rightarrow>
                         JSON StatusInternalServerError
                           (errorBody ''server could not parse response from device auth endpoint'') ctx
                     | Inr res \<Rightarrow>
                         JSON StatusOK (H [(''device_code'', JStr (drDeviceCode res)),
                                           (''verification_url'', JStr (VerificationURLComplete res))]) ctx)))
      else
        (case PostForm env (TokenURL cfg)
                [(''client_id'', ClientID cfg), (''client_secret'', ClientSecret cfg),
                 (''device_code'', DeviceCode reqData),
                 (''grant_type'', ''urn:ietf:params:oauth:grant-type:device_code'')] of
           Inl err \<Rightarrow>
             JSON StatusInternalServerError
               (errorBody ''server encountered an error while making request to token endpoint'') ctx
         | Inr resp \<Rightarrow>
             if StatusCode resp \<noteq> 200 \<and> StatusCode resp \<noteq> 400 then
               JSON StatusInternalServerError
                 (errorBody ''server received bad status code from token endpoint'') ctx
             else
               (case respBody resp of
                  Inl err \<Rightarrow>
                    JSON StatusInternalServerError
                      (errorBody ''server encountered an error reading response from token endpoint'') ctx
                | Inr body \<Rightarrow>
                    (case unmarshalTokenResponse env body of
                       Inl err \<Rightarrow>
                         JSON StatusInternalServerError
                           (errorBody ''server could not parse error from token endpoint'') ctx
                     | Inr tokenResponse \<Rightarrow>
                         if trAccessToken tokenResponse = [] then
                           if StatusCode resp = 400 \<and> trError tokenResponse = ''authorization_pending'' then
                             JSON StatusOK (H [(''status'', JStr ''PENDING'')]) ctx
                           else
                             JSON StatusInternalServerError
                               (errorBody ''server encountered unknown error waiting for token'') ctx
                         else
                           JSON StatusOK (H [(''status'', JStr ''APPROVED''),
                                             (''access_token'', JStr (trAccessToken tokenResponse))]) ctx))))"

text \<open>
  \<^verbatim>\<open>cliRegisterNamespace\<close>: the first argument is what \<^verbatim>\<open>ctx.BindJSON\<close> made of
  the request body.
\<close>

definition cliRegisterNamespace ::
  "'db registry_env \<Rightarrow> ginContext \<Rightarrow> error + registrationData \<Rightarrow> 'db \<Rightarrow> (ginContext \<times> 'db) outcome" where
  "cliRegisterNamespace env ctx bound db =
     (case bound of
        Inl err \<Rightarrow> Returns (JSON StatusBadRequest (errorBody ''Bad Request'') ctx, db)
      | Inr reqData \<Rightarrow>
          if AccessToken reqData \<noteq> [] then
            (case ServerOIDCClient env of
               Inl err \<Rightarrow>
                 Returns (JSON StatusInternalServerError
                            (errorBody ''server has malformed OIDC configuration'') ctx, db)
             | Inr cfg \<Rightarrow>
                 (case PostForm env (UserInfoURL cfg) [(''access_token'', AccessToken reqData)] of
                    Inl err \<Rightarrow>
                      Returns (JSON StatusInternalServerError
                                 (errorBody ''server encountered an error making request to user info endpoint'')
                                 ctx, db)
                  | Inr resp \<Rightarrow>
                      if StatusCode resp \<noteq> 200 then
                        Returns (JSON StatusInternalServerError
                                   (errorBody ''server received non-200 status from user info endpoint'') ctx, db)
                      else
                        (case respBody resp of
                           Inl err \<Rightarrow>
                             Returns (JSON StatusInternalServerError
                                        (errorBody
                                          ''Server encountered an error reading response from user info endpoint'')
                                        ctx, db)
                         | Inr body \<Rightarrow> challengeThenReply env ctx (reqData\<lparr>Identity := body\<rparr>) db)))
          else if IdentityRequired reqData = ''false'' \<or> IdentityRequired reqData = [] then
            challengeThenReply env ctx reqData db
          else
            (case ServerOIDCClient env of
               Inl err \<Rightarrow>
                 Returns (JSON StatusInternalServerError
                            (errorBody ''server has malformed OIDC configuration'') ctx, db)
             | Inr cfg \<Rightarrow> Returns (deviceCodeFlow env ctx reqData cfg, db)))"

text \<open>
  The scope validator of \<^verbatim>\<open>deleteNamespaceHandler\<close>, and \<^verbatim>\<open>jwt.Validate\<close> with it:
  the time claims first, then the validator.
\<close>

definition scopeValidator :: "jwtToken \<Rightarrow> error option" where
  "scopeValidator tok =
     (case map_of (claims tok) ''scope'' of
        None \<Rightarrow> Some (New ''No scope is present; required for authorization'')
      | Some ClaimOther \<Rightarrow> Some (New ''scope claim in token is not string-valued'')
      | Some (ClaimString scope) \<Rightarrow>
          if Pelican_NamespaceDelete \<in> set (splitSpace scope) then None
          else Some (New ''Token does not contain namespace deletion authorization''))"

definition jwtValidate :: "'db registry_env \<Rightarrow> jwtToken \<Rightarrow> error option" where
  "jwtValidate env tok =
     (case jwtValidateTime env tok of Some err \<Rightarrow> Some err | None \<Rightarrow> scopeValidator tok)"

text \<open>
  \<^verbatim>\<open>deleteNamespaceHandler\<close>: \<open>prefix\<close> is the wildcard parameter of the route and
  \<open>authHeader\<close> the \<^verbatim>\<open>Authorization\<close> header (empty when the request has none).
  After the reply to an unknown prefix the source has no \<^verbatim>\<open>return\<close>, so the handler
  goes on.
\<close>

definition deleteNamespaceHandler ::
  "'db registry_env \<Rightarrow> ginContext \<Rightarrow> string \<Rightarrow> string \<Rightarrow> 'db \<Rightarrow> ginContext \<times> 'db" where
  "deleteNamespaceHandler env ctx prefix authHeader db =
     (if prefix = [] then (JSON StatusBadRequest (errorBody ''prefix is required to delete'') ctx, db)
      else
        (case namespaceExists env prefix db of
           Inl err \<Rightarrow>
             (JSON StatusInternalServerError
                (errorBody ''server encountered an error checking if namespace already exists'') ctx, db)
         | Inr exists \<Rightarrow>
             let ctx1 = (if \<not> exists then
                           JSON StatusBadRequest
                             (errorBody ''the prefix does not exist so it cannot be deleted'') ctx
                         else ctx);
                 delTokenStr = TrimPrefix authHeader ''Bearer ''
             in (case getNamespaceJwksByPrefix env prefix db of
                   Inl err \<Rightarrow>
                     (JSON StatusInternalServerError
                        (errorBody ''server encountered an error loading the prefix's stored jwks'') ctx1, db)
                 | Inr (originJwks, _) \<Rightarrow>
                     (case jwtParse env delTokenStr originJwks of
                        Inl err \<Rightarrow>
                          (JSON StatusInternalServerError
                             (errorBody ''server could not verify/parse the provided deletion token'') ctx1, db)
                      | Inr parsed \<Rightarrow>
                          (case jwtValidate env parsed of
                             Some err \<Rightarrow>
                               (JSON StatusInternalServerError
                                  (errorBody ''server could not validate the provided deletion token'') ctx1, db)
                           | None \<Rightarrow>
                               (case deleteNamespace env prefix db of
                                  (Some err, db') \<Rightarrow>
                                    (JSON StatusInternalServerError
                                       (errorBody ''server encountered an error deleting namespace from database'')
                                       ctx1, db')
                                | (None, db') \<Rightarrow>
                                    (JSON StatusOK (H [(''status'', JStr ''success'')]) ctx1, db')))))))"


text \<open>
  \<^verbatim>\<open>checkNamespaceStatusHandler\<close>: the first argument is what \<^verbatim>\<open>ctx.ShouldBind\<close>
  made of the request body.
\<close>

definition checkNamespaceStatusHandler ::
  "'db registry_env \<Rightarrow> ginContext \<Rightarrow> error + checkStatusReq \<Rightarrow> 'db \<Rightarrow> ginContext" where
  "checkNamespaceStatusHandler env ctx bound db =
     (case bound of
        Inl err \<Rightarrow> JSON StatusBadRequest (errorBody ''Failed to parse request body'') ctx
      | Inr req \<Rightarrow>
          if csPrefix req = [] then JSON StatusBadRequest (errorBody ''prefix is required'') ctx
          else
            (case getNamespaceByPrefix env (csPrefix req) db of
               (ns, Some err) \<Rightarrow> JSON StatusInternalServerError (errorBody ''Error getting namespace'') ctx
             | (None, None) \<Rightarrow> JSON StatusInternalServerError (errorBody ''Error getting namespace'') ctx
             | (Some ns, None) \<Rightarrow>
                 if nsAdminMetadata ns \<noteq> emptyMetadata then
                   if HasPrefix (csPrefix req) ''/caches'' \<and> Registry_RequireCacheApproval env then
                     JSON StatusOK (StatusRes (amStatus (nsAdminMetadata ns) = Approved)) ctx
                   else if \<not> Registry_RequireCacheApproval env then
                     JSON StatusOK (StatusRes True) ctx
                   else
                     if Registry_RequireOriginApproval env then
                       JSON StatusOK (StatusRes (amStatus (nsAdminMetadata ns) = Approved)) ctx
                     else JSON StatusOK (StatusRes True) ctx
                 else JSON StatusOK (StatusRes True) ctx))"

section \<open>The director's list of namespaces (director/director\_api.go)\<close>

text \<open>
  Modelled from the spec: the types \<^verbatim>\<open>ServerAd\<close> and \<^verbatim>\<open>ServerType\<close> of the
  director package are declared outside the sources.  A server identity is a role and a
  name; the role is origin or cache.  The advertisement of one namespace is a type
  parameter \<open>'ad\<close>, with its zero value where Go needs one.
\<close>

datatype director_ServerType = director_CacheType | director_OriginType

record ServerAd =
  saName :: string
  saType :: director_ServerType

text \<open>
  \<^verbatim>\<open>make([]T, len, cap)\<close> with lengths that are not constants: the runtime panics
  when the length exceeds the capacity, and otherwise gives \<open>len\<close> zero values.
\<close>

definition makeslice :: "'a \<Rightarrow> nat \<Rightarrow> nat \<Rightarrow> 'a list outcome" where
  "makeslice zero len cap =
     (if len > cap then Panics ''runtime error: makeslice: cap out of range''
      else Returns (replicate len zero))"

fun appendEach :: "'a list \<Rightarrow> 'a list \<Rightarrow> 'a list" where
  "appendEach namespaces [] = namespaces"
| "appendEach namespaces (v # vs) = appendEach (namespaces @ [v]) vs"

fun collectOrigins :: "'ad list \<Rightarrow> (ServerAd \<times> 'ad list) list \<Rightarrow> 'ad list" where
  "collectOrigins namespaces [] = namespaces"
| "collectOrigins namespaces ((k, v) # items) =
     collectOrigins (if saType k = director_OriginType then appendEach namespaces v else namespaces) items"

text \<open>
  \<^verbatim>\<open>ListNamespaces\<close>: the catalog is given as the items of \<^verbatim>\<open>serverAds.Items()\<close> in
  the order the loop visits them (server identity, its namespace advertisements).
\<close>

definition ListNamespaces :: "'ad \<Rightarrow> (ServerAd \<times> 'ad list) list \<Rightarrow> 'ad list outcome" where
  "ListNamespaces zeroAd serverAdItems =
     (case makeslice zeroAd (length serverAdItems) 0 of
        Panics m \<Rightarrow> Panics m
      | Returns namespaces \<Rightarrow> Returns (collectOrigins namespaces serverAdItems))"

section \<open>Server initialisation (config/config.go)\<close>

type_synonym ServerType = "64 word"

definition CacheType :: ServerType where "CacheType = push_bit 0 1"
definition OriginType :: ServerType where "OriginType = push_bit 1 1"
definition DirectorType :: ServerType where "DirectorType = push_bit 2 1"
definition RegistryType :: ServerType where "RegistryType = push_bit 3 1"

definition IsEnabled :: "ServerType \<Rightarrow> ServerType \<Rightarrow> bool" where
  "IsEnabled sType testServer = (sType AND testServer = testServer)"

definition Set :: "ServerType \<Rightarrow> ServerType \<Rightarrow> ServerType" where
  "Set sType server = sType OR server"

datatype cfgval = VStr string | VBool bool

fun toString :: "cfgval \<Rightarrow> string" where
  "toString (VStr s) = s"
| "toString (VBool b) = (if b then ''true'' else ''false'')"

text \<open>
  The process-wide state that \<^verbatim>\<open>InitServer\<close> touches: the enabled servers with their
  once-guard, the configuration store (values that take precedence over defaults, the
  defaults, the configuration type) and the directory to clean up at shutdown.
\<close>

record config_state =
  enabledServers :: ServerType
  setServerOnce :: bool
  viperValues :: "string \<rightharpoonup> cfgval"
  viperDefaults :: "string \<rightharpoonup> cfgval"
  viperConfigType :: string
  tempRunDir :: string

definition GetString :: "config_state \<Rightarrow> string \<Rightarrow> string" where
  "GetString st k =
     (case viperValues st k of
        Some v \<Rightarrow> toString v
      | None \<Rightarrow> (case viperDefaults st k of Some v \<Rightarrow> toString v | None \<Rightarrow> []))"

definition SetDefault :: "string \<Rightarrow> cfgval \<Rightarrow> config_state \<Rightarrow> config_state" where
  "SetDefault k v st = st\<lparr>viperDefaults := (viperDefaults st)(k \<mapsto> v)\<rparr>"

definition SetConfigType :: "string \<Rightarrow> config_state \<Rightarrow> config_state" where
  "SetConfigType ty st = st\<lparr>viperConfigType := ty\<rparr>"

definition setEnabledServer :: "ServerType \<Rightarrow> config_state \<Rightarrow> config_state" where
  "setEnabledServer newServers st =
     (if setServerOnce st then st
      else st\<lparr>enabledServers := Set (enabledServers st) newServers, setServerOnce := True\<rparr>)"

text \<open>
  The operating system and the remainder of \<^verbatim>\<open>InitServer\<close>.  From the call of
  \<^verbatim>\<open>InitServerOSDefaults\<close> to the end, the function creates directories, reads the host
  name, generates keys and certificates and discovers the federation; that part is the
  parameter \<open>finishInitServer\<close>.  The task that removes the temporary directory at
  shutdown runs concurrently and is not modelled.
\<close>

record config_env =
  IsRootExecution :: bool
  UserHomeDir :: "error + string"
  filepathJoin :: "string list \<Rightarrow> string"
  Getenv :: "string \<Rightarrow> string"
  MkdirAll :: "string \<Rightarrow> error option"
  MkdirTemp :: "error + string"
  finishInitServer :: "ServerType \<Rightarrow> config_state \<Rightarrow> error option \<times> config_state"

definition getConfigBase :: "config_env \<Rightarrow> error + string" where
  "getConfigBase env =
     (case UserHomeDir env of
        Inl err \<Rightarrow> Inl err
      | Inr home \<Rightarrow> Inr (filepathJoin env [home, ''.config'', ''pelican'']))"

definition initConfigDir :: "config_env \<Rightarrow> config_state \<Rightarrow> error option \<times> config_state" where
  "initConfigDir env st =
     (let configDir = GetString st ''ConfigDir'' in
      if configDir = [] then
        if IsRootExecution env then (None, SetDefault ''ConfigDir'' (VStr ''/etc/pelican'') st)
        else
          (case getConfigBase env of
             Inl err \<Rightarrow> (Some err, st)
           | Inr configTmp \<Rightarrow> (None, SetDefault ''ConfigDir'' (VStr configTmp) st))
      else (None, st))"

definition cleanupDirOnShutdown :: "string \<Rightarrow> config_state \<Rightarrow> config_state" where
  "cleanupDirOnShutdown dir st = st\<lparr>tempRunDir := dir\<rparr>"

fun SetDefaults :: "(string \<times> cfgval) list \<Rightarrow> config_state \<Rightarrow> config_state" where
  \<comment> \<open>a run of \<^verbatim>\<open>viper.SetDefault\<close> calls, first to last\<close>
  "SetDefaults [] st = st"
| "SetDefaults ((k, v) # kvs) st = SetDefaults kvs (SetDefault k v st)"

definition pathDefaults :: "config_env \<Rightarrow> string \<Rightarrow> config_state \<Rightarrow> config_state" where
  \<comment> \<open>the defaults that \<^verbatim>\<open>InitServer\<close> sets whoever runs it\<close>
  "pathDefaults env configDir st =
     SetDefaults
       [(''Server.TLSCertificate'', VStr (filepathJoin env [configDir, ''certificates'', ''tls.crt''])),
        (''Server.TLSKey'', VStr (filepathJoin env [configDir, ''certificates'', ''tls.key''])),
        (''Server.TLSCAKey'', VStr (filepathJoin env [configDir, ''certificates'', ''tlsca.key''])),
        (''Server.SessionSecretFile'', VStr (filepathJoin env [configDir, ''session-secret''])),
        (''Xrootd.RobotsTxtFile'', VStr (filepathJoin env [configDir, ''robots.txt''])),
        (''Xrootd.ScitokensConfig'', VStr (filepathJoin env [configDir, ''xrootd'', ''scitokens.cfg''])),
        (''Xrootd.Authfile'', VStr (filepathJoin env [configDir, ''xrootd'', ''authfile''])),
        (''Xrootd.MacaroonsKeyFile'', VStr (filepathJoin env [configDir, ''macaroons-secret''])),
        (''IssuerKey'', VStr (filepathJoin env [configDir, ''issuer.jwk''])),
        (''Server.UIPasswordFile'', VStr (filepathJoin env [configDir, ''server-web-passwd''])),
        (''Server.UIActivationCodeFile'', VStr (filepathJoin env [configDir, ''server-web-activation-code''])),
        (''Server.SessionSecretFile'', VStr (filepathJoin env [configDir, ''session-secret''])),
        (''OIDC.ClientIDFile'', VStr (filepathJoin env [configDir, ''oidc-client-id''])),
        (''OIDC.ClientSecretFile'', VStr (filepathJoin env [configDir, ''oidc-client-secret''])),
        (''Cache.ExportLocation'', VStr ''/''),
        (''Registry.RequireKeyChaining'', VBool True)]
       (SetConfigType ''yaml'' st)"

definition locationDefaults ::
  "config_env \<Rightarrow> string \<Rightarrow> string \<Rightarrow> config_state \<Rightarrow> error option \<times> config_state" where
  \<comment> \<open>the \<^verbatim>\<open>if IsRootExecution()\<close> block of \<^verbatim>\<open>InitServer\<close>\<close>
  "locationDefaults env configDir xrootdPrefix st =
     (if IsRootExecution env then
        (None,
         SetDefaults
           [(''Xrootd.RunLocation'', VStr (filepathJoin env [''/run'', ''pelican'', ''xrootd'', xrootdPrefix])),
            (''Cache.DataLocation'', VStr ''/run/pelican/xcache''),
            (''Origin.Multiuser'', VBool True),
            (''Director.GeoIPLocation'', VStr ''/var/cache/pelican/maxmind/GeoLite2-City.mmdb''),
            (''Registry.DbLocation'', VStr ''/var/lib/pelican/registry.sqlite''),
            (''Monitoring.DataLocation'', VStr ''/var/lib/pelican/monitoring/data''),
            (''Shoveler.QueueDirectory'', VStr ''/var/spool/pelican/shoveler/queue''),
            (''Shoveler.AMQPTokenLocation'', VStr ''/etc/pelican/shoveler-token'')] st)
      else
        let st1 = SetDefaults
              [(''Director.GeoIPLocation'', VStr (filepathJoin env [configDir, ''maxmind'', ''GeoLite2-City.mmdb''])),
               (''Registry.DbLocation'', VStr (filepathJoin env [configDir, ''ns-registry.sqlite''])),
               (''Monitoring.DataLocation'', VStr (filepathJoin env [configDir, ''monitoring/data''])),
               (''Shoveler.QueueDirectory'', VStr (filepathJoin env [configDir, ''shoveler/queue''])),
               (''Shoveler.AMQPTokenLocation'', VStr (filepathJoin env [configDir, ''shoveler-token'']))] st;
            userRuntimeDir = Getenv env ''XDG_RUNTIME_DIR''
        in if userRuntimeDir \<noteq> [] then
             let runtimeDir = filepathJoin env [userRuntimeDir, ''pelican'', xrootdPrefix] in
             (case MkdirAll env runtimeDir of
                Some err \<Rightarrow> (Some err, st1)
              | None \<Rightarrow>
                  (None,
                   SetDefaults
                     [(''Xrootd.RunLocation'', VStr runtimeDir),
                      (''Cache.DataLocation'', VStr (filepathJoin env [runtimeDir, ''xcache''])),
                      (''Origin.Multiuser'', VBool False)] st1))
           else
             (case MkdirTemp env of
                Inl err \<Rightarrow> (Some err, st1)
              | Inr dir \<Rightarrow>
                  (None,
                   SetDefault ''Origin.Multiuser'' (VBool False)
                     (cleanupDirOnShutdown dir
                       (SetDefaults
                          [(''Xrootd.RunLocation'', VStr (filepathJoin env [dir, xrootdPrefix])),
                           (''Cache.DataLocation'', VStr (filepathJoin env [dir, ''xcache'']))] st1)))))"

definition InitServer :: "config_env \<Rightarrow> ServerType \<Rightarrow> config_state \<Rightarrow> error option \<times> config_state" where
  "InitServer env currentServers st =
     (case initConfigDir env st of
        (Some err, st1) \<Rightarrow> (Some (Wrap err ''Failed to initialize the server configuration''), st1)
      | (None, st1) \<Rightarrow>
          if IsEnabled currentServers OriginType \<and> IsEnabled currentServers CacheType then
            (Some (New ''A cache and origin cannot both be enabled in the same instance''), st1)
          else
            let st2 = setEnabledServer currentServers st1;
                xrootdPrefix = (if IsEnabled currentServers OriginType then ''origin''
                                else if IsEnabled currentServers CacheType then ''cache'' else []);
                configDir = GetString st2 ''ConfigDir'';
                st3 = pathDefaults env configDir st2
            in (case locationDefaults env configDir xrootdPrefix st3 of
                  (Some err, st4) \<Rightarrow> (Some err, st4)
                | (None, st4) \<Rightarrow> finishInitServer env currentServers st4))"

section \<open>Observations on a run of the file transfer test\<close>










section \<open>Concrete environments\<close>





text \<open>
  A registry whose database is a list of namespaces held in memory.  A key is its own
  text, a hash is the payload itself, a signature is the signing key followed by the hash,
  and a deletion token is the signing key, a bar and the scope (the signing key alone for
  a token without a scope claim); the server's key is \<open>S\<close> and random bytes are all
  \<open>0x01\<close>.
\<close>

definition lookupNamespace :: "string \<Rightarrow> Namespace list \<Rightarrow> Namespace option" where
  "lookupNamespace p db = find (\<lambda>ns. nsPrefix ns = p) db"

definition memoryRegistry :: "bool \<Rightarrow> bool \<Rightarrow> (Namespace list) registry_env" where
  "memoryRegistry requireCache requireOrigin =
     \<lparr>namespaceExists = (\<lambda>p db. Inr (lookupNamespace p db \<noteq> None)),
      namespaceExistsByPrefix = (\<lambda>p db. Inr (lookupNamespace p db \<noteq> None)),
      getNamespaceJwksByPrefix = (\<lambda>p db.
        case lookupNamespace p db of
          None \<Rightarrow> Inl (Ext ''sql: no rows in result set'')
        | Some ns \<Rightarrow> Inr ([nsPubkey ns], Some (nsAdminMetadata ns))),
      getNamespaceByPrefix = (\<lambda>p db. (lookupNamespace p db, None)),
      addNamespace = (\<lambda>ns db. (None, db @ [ns])),
      deleteNamespace = (\<lambda>p db. (None, filter (\<lambda>ns. nsPrefix ns \<noteq> p) db)),
      validateJwks = (\<lambda>s. if s = [] then Inl (Ext ''empty jwks'') else Inr s),
      validatePrefix = (\<lambda>p. (p, if HasPrefix p ''/'' then None else Some (Ext ''bad prefix''))),
      validateKeyChaining = (\<lambda>p k db. (None, None)),
      keyRaw = (\<lambda>k. Inr (EcdsaPublicKey k)),
      jsonMarshal = (\<lambda>s. Inr s),
      randRead = (\<lambda>n. Inr (replicate n (CHR 0x01))),
      sha256 = (\<lambda>payload. payload),
      loadServerKeys = Inr ''S'',
      publicKeyOf = (\<lambda>priv. priv),
      ecdsaSign = (\<lambda>priv h. Inr (priv @ h)),
      ecdsaVerifyASN1 = (\<lambda>pub h sg. sg = pub @ h),
      jwtParse = (\<lambda>s ks.
        if takeWhile (\<lambda>c. c \<noteq> CHR ''|'') s \<in> set ks then
          if CHR ''|'' \<in> set s then
            Inr \<lparr>claims = [(''scope'', ClaimString (drop 1 (dropWhile (\<lambda>c. c \<noteq> CHR ''|'') s)))]\<rparr>
          else Inr \<lparr>claims = []\<rparr>
        else Inl (Ext ''failed to parse token'')),
      jwtValidateTime = (\<lambda>tok. None),
      Registry_RequireCacheApproval = requireCache,
      Registry_RequireOriginApproval = requireOrigin,
      ExternalWebUrl = ''https://registry.example'',
      parseUrl = (\<lambda>s. Inr \<lparr>urlRest = s, urlPath = []\<rparr>),
      JoinPath = (\<lambda>ps. Inr (concat (map (\<lambda>p. ''/'' @ p) ps))),
      printUrl = (\<lambda>u. urlRest u @ urlPath u),
      ServerOIDCClient = Inl (Ext ''no OIDC client configured''),
      PostForm = (\<lambda>u form. Inl (Ext ''no network'')),
      unmarshalDeviceResponse = (\<lambda>s. Inl (Ext ''not JSON'')),
      unmarshalTokenResponse = (\<lambda>s. Inl (Ext ''not JSON''))\<rparr>"

definition namespaceFoo :: "RegistrationStatus \<Rightarrow> Namespace" where
  \<comment> \<open>the origin namespace \<open>/foo\<close>, registered with the key \<open>k1\<close>\<close>
  "namespaceFoo st =
     \<lparr>nsPrefix = ''/foo'', nsPubkey = ''k1'', nsIdentity = [],
      nsAdminMetadata = emptyMetadata\<lparr>amUserID := ''admin'', amStatus := st\<rparr>\<rparr>"

definition noFields :: registrationData where
  "noFields = \<lparr>ClientNonce = [], ClientPayload = [], ClientSignature = [], ServerNonce = [],
     ServerPayload = [], ServerSignature = [], Pubkey = [], AccessToken = [], Identity = [],
     IdentityRequired = [], DeviceCode = [], Prefix = []\<rparr>"

definition initRequest :: registrationData where
  \<comment> \<open>a challenge init: the client nonce \<open>A\<close> alone\<close>
  "initRequest = noFields\<lparr>ClientNonce := ''A''\<rparr>"


text \<open>A machine whose configuration store is empty and on which nothing fails.\<close>

fun joinSlash :: "string list \<Rightarrow> string" where
  "joinSlash [] = []"
| "joinSlash [x] = x"
| "joinSlash (x # y # ys) = x @ ''/'' @ joinSlash (y # ys)"

definition plainMachine :: config_env where
  "plainMachine =
     \<lparr>IsRootExecution = False, UserHomeDir = Inr ''/home/pelican'',
      filepathJoin = joinSlash,
      Getenv = (\<lambda>k. []), MkdirAll = (\<lambda>d. None), MkdirTemp = Inr ''/tmp/pelican-xrootd-1'',
      finishInitServer = (\<lambda>s st. (None, st))\<rparr>"

definition initialConfig :: config_state where
  "initialConfig =
     \<lparr>enabledServers = 0, setServerOnce = False, viperValues = Map.empty,
      viperDefaults = Map.empty, viperConfigType = [], tempRunDir = []\<rparr>"

section \<open>Observations on a reply\<close>

definition replyStatus :: "(ginContext \<times> 'db) outcome \<Rightarrow> int option" where
  \<comment> \<open>the status a handler that returned has answered with\<close>
  "replyStatus r = (case r of Returns (ctx, db) \<Rightarrow> Some (responseStatus ctx) | Panics m \<Rightarrow> None)"


section \<open>Properties\<close>

subsection \<open>The key-sign challenge\<close>

text \<open>
  C2.  The claim: the payload that a challenge init signs and returns is the client nonce
  followed by the server nonce generated for this request.  The code generates the nonce
  and returns it, but builds the payload from the \<^verbatim>\<open>server_nonce\<close> field of the request.
  For the init request with client nonce \<open>A\<close> the fresh nonce is 64 hexadecimal digits,
  and the payload returned is the encoding of \<open>A\<close> alone, not that of \<open>A\<close> followed by the
  nonce.
\<close>

theorem init_payload_omits_fresh_nonce:
  "keySignChallengeInit (memoryRegistry True True) newContext initRequest =
     (None, \<lparr>written =
        [(200, H [(''server_nonce'', JStr ''0101010101010101010101010101010101010101010101010101010101010101''),
                  (''client_nonce'', JStr ''A''),
                  (''server_payload'', JStr ''41''),
                  (''server_signature'', JStr ''5341'')])],
        aborted = False\<rparr>)
   \<and> EncodeToString (''A'' @ ''0101010101010101010101010101010101010101010101010101010101010101'') \<noteq> ''41''"
  by code_simp

text \<open>
  C8.  The claim: a registration request that is neither a challenge init nor a complete
  commit is answered with status 400.  For the request with no field at all, the challenge
  answers with status 300 (\<^verbatim>\<open>http.StatusMultipleChoices\<close>); the caller's later reply
  with 500 comes after the header and cannot replace it.
\<close>

theorem missing_fields_status_300:
  "cliRegisterNamespace env newContext (Inr noFields) db =
     Returns (\<lparr>written =
                 [(300, H [(''error'', JStr ''MISSING PARAMETERS'')]),
                  (500, H [(''error'', JStrErr ''server encountered an error during key-sign challenge: ''
                                         (New ''key sign challenge was missing parameters''))])],
               aborted = False\<rparr>, db)
   \<and> replyStatus (cliRegisterNamespace env newContext (Inr noFields) db) = Some 300"
  by (simp add: cliRegisterNamespace_def noFields_def challengeThenReply_def keySignChallenge_def
      JSON_def newContext_def errorBody_def StatusMultipleChoices_def StatusInternalServerError_def
      responseStatus_def replyStatus_def)

subsection \<open>Approval\<close>

text \<open>
  C6.  The claim: for a registered origin prefix with admin metadata, the approved field is
  (status = Approved) whenever origin approval is required, whatever cache approval is.
  With cache approval off and origin approval on, the pending origin \<open>/foo\<close> is reported
  as approved: the branch for "cache approval not required" is taken before the prefix is
  known to be a cache.
\<close>

theorem origin_status_ignores_RequireOriginApproval:
  "checkNamespaceStatusHandler (memoryRegistry False True) newContext (Inr \<lparr>csPrefix = ''/foo''\<rparr>)
     [namespaceFoo Pending]
   = \<lparr>written = [(200, StatusRes True)], aborted = False\<rparr>"
  by (simp add: checkNamespaceStatusHandler_def memoryRegistry_def lookupNamespace_def namespaceFoo_def
      emptyMetadata_def HasPrefix_def JSON_def newContext_def StatusOK_def Pending_def Approved_def)

subsection \<open>The director\<close>

text \<open>
  C9.  The claim: \<^verbatim>\<open>ListNamespaces\<close> returns normally on every catalog, with the
  advertisements of the origins.  The slice is made with the number of catalog items as its
  length and 0 as its capacity, so on a catalog with one origin the call panics.
\<close>

theorem ListNamespaces_one_origin_panics:
  "ListNamespaces ''zero'' [(\<lparr>saName = ''origin-1'', saType = director_OriginType\<rparr>, [''/foo''])]
     = Panics ''runtime error: makeslice: cap out of range''"
  by (simp add: ListNamespaces_def makeslice_def)

subsection \<open>Server initialisation\<close>

text \<open>
  C10, as stated: with both the cache and the origin enabled, \<^verbatim>\<open>InitServer\<close> returns
  its error before it applies any configuration default.  On a machine with an empty
  configuration store, the call with the bitmask 3 returns the error, and the default of
  \<^verbatim>\<open>ConfigDir\<close>, unset before, is set after: \<^verbatim>\<open>initConfigDir\<close> runs before the
  check.
\<close>

theorem InitServer_sets_ConfigDir_before_rejecting:
  "IsEnabled 3 OriginType \<and> IsEnabled 3 CacheType
   \<and> viperDefaults initialConfig ''ConfigDir'' = None
   \<and> fst (InitServer plainMachine 3 initialConfig) =
       Some (New ''A cache and origin cannot both be enabled in the same instance'')
   \<and> viperDefaults (snd (InitServer plainMachine 3 initialConfig)) ''ConfigDir''
       = Some (VStr ''/home/pelican/.config/pelican'')"
  by (simp add: IsEnabled_def OriginType_def CacheType_def InitServer_def initConfigDir_def
      plainMachine_def initialConfig_def GetString_def getConfigBase_def SetDefault_def)

text \<open>
  C10, amended.  For every bitmask that enables both the cache and the origin,
  \<^verbatim>\<open>InitServer\<close> returns an error, and the state it leaves is the one
  \<^verbatim>\<open>initConfigDir\<close> left: the enabled servers and their once-guard are untouched, and
  so is every default except the one of \<^verbatim>\<open>ConfigDir\<close>, which \<^verbatim>\<open>initConfigDir\<close> may
  have set.
\<close>

theorem InitServer_rejects_cache_with_origin:
  assumes "IsEnabled currentServers OriginType" and "IsEnabled currentServers CacheType"
  shows "fst (InitServer env currentServers st) =
           Some (case fst (initConfigDir env st) of
                   Some err \<Rightarrow> Wrap err ''Failed to initialize the server configuration''
                 | None \<Rightarrow> New ''A cache and origin cannot both be enabled in the same instance'')
       \<and> snd (InitServer env currentServers st) = snd (initConfigDir env st)
       \<and> enabledServers (snd (InitServer env currentServers st)) = enabledServers st
       \<and> setServerOnce (snd (InitServer env currentServers st)) = setServerOnce st
       \<and> viperValues (snd (InitServer env currentServers st)) = viperValues st
       \<and> (\<forall>k. k \<noteq> ''ConfigDir'' \<longrightarrow>
            viperDefaults (snd (InitServer env currentServers st)) k = viperDefaults st k)"
  using assms
  by (auto simp: InitServer_def initConfigDir_def SetDefault_def Let_def
           split: sum.splits prod.splits option.splits if_splits)

theorem InitServer_rejects_cache_with_origin_witness:
  "IsEnabled 3 OriginType \<and> IsEnabled 3 CacheType
   \<and> fst (InitServer plainMachine 3 initialConfig) =
       Some (New ''A cache and origin cannot both be enabled in the same instance'')
   \<and> enabledServers (snd (InitServer plainMachine 3 initialConfig)) = 0
   \<and> viperDefaults (snd (InitServer plainMachine 3 initialConfig)) ''Server.TLSKey'' = None"
proof -
  have o: "IsEnabled 3 OriginType" by (simp add: IsEnabled_def OriginType_def)
  have c: "IsEnabled 3 CacheType" by (simp add: IsEnabled_def CacheType_def)
  have i: "fst (initConfigDir plainMachine initialConfig) = None"
    by (simp add: initConfigDir_def plainMachine_def initialConfig_def GetString_def getConfigBase_def)
  have e: "enabledServers initialConfig = 0" "viperDefaults initialConfig ''Server.TLSKey'' = None"
    by (simp_all add: initialConfig_def)
  note t = InitServer_rejects_cache_with_origin [OF o c, of plainMachine initialConfig]
  from t have "fst (InitServer plainMachine 3 initialConfig) =
       Some (New ''A cache and origin cannot both be enabled in the same instance'')"
    by (simp only: i option.case)
  moreover from t have "enabledServers (snd (InitServer plainMachine 3 initialConfig)) = 0"
    using e(1) by (elim conjE) (simp only:)
  moreover from t have "viperDefaults (snd (InitServer plainMachine 3 initialConfig)) ''Server.TLSKey'' = None"
    using e(2) by (elim conjE) simp
  ultimately show ?thesis using o c by blast
qed

subsection \<open>The file transfer test\<close>













subsection \<open>Registration of a prefix that exists\<close>




subsection \<open>Deletion\<close>

text \<open>
  C4, as stated: a DELETE that fails authorization is answered with a 4xx status, 401 when
  it carries no bearer token.  A DELETE of the registered prefix \<open>/foo\<close> without an
  \<^verbatim>\<open>Authorization\<close> header is answered with 500.
\<close>

theorem delete_without_bearer_gets_500:
  "deleteNamespaceHandler (memoryRegistry True True) newContext ''/foo'' [] [namespaceFoo Approved] =
     (\<lparr>written = [(500, H [(''error'', JStr ''server could not verify/parse the provided deletion token'')])],
       aborted = False\<rparr>, [namespaceFoo Approved])"
  by code_simp

text \<open>
  The scope validator accepts a token exactly when its scope claim is a string that has
  \<^verbatim>\<open>pelican.namespace_delete\<close> among its fields between single spaces.
\<close>

lemma scopeValidator_accepts_iff:
  "scopeValidator tok = None \<longleftrightarrow>
     (\<exists>scope. map_of (claims tok) ''scope'' = Some (ClaimString scope)
              \<and> ''pelican.namespace_delete'' \<in> set (splitSpace scope))"
proof (cases "map_of (claims tok) ''scope''")
  case None
  then show ?thesis by (simp add: scopeValidator_def)
next
  case (Some c)
  then show ?thesis
    by (cases c) (simp_all add: scopeValidator_def Pelican_NamespaceDelete_def)
qed

text \<open>
  C4, amended.  A DELETE fails authorization when the stored key set cannot be loaded, or
  the bearer token (the empty string when there is none) does not parse and verify against
  it, or the time claims of the parsed token are not valid, or the token has no string
  scope claim with \<^verbatim>\<open>pelican.namespace_delete\<close> among its fields.  For every such
  request the database is left as it was, and when the prefix is registered the answer
  is 500.
\<close>

theorem unauthorized_delete:
  assumes unauth: "\<forall>jwks md tok. getNamespaceJwksByPrefix env prefix db = Inr (jwks, md) \<longrightarrow>
                     jwtParse env (TrimPrefix authHeader ''Bearer '') jwks = Inr tok \<longrightarrow>
                     jwtValidateTime env tok \<noteq> None \<or>
                     \<not> (\<exists>scope. map_of (claims tok) ''scope'' = Some (ClaimString scope)
                                 \<and> ''pelican.namespace_delete'' \<in> set (splitSpace scope))"
  shows "snd (deleteNamespaceHandler env newContext prefix authHeader db) = db
       \<and> (prefix \<noteq> [] \<and> namespaceExists env prefix db = Inr True \<longrightarrow>
            responseStatus (fst (deleteNamespaceHandler env newContext prefix authHeader db)) = 500)"
proof (cases "getNamespaceJwksByPrefix env prefix db")
  case (Inl e)
  then show ?thesis
    by (simp add: deleteNamespaceHandler_def Let_def responseStatus_def JSON_def newContext_def
          StatusInternalServerError_def split: sum.splits)
next
  case (Inr p)
  obtain jwks md where p: "p = (jwks, md)" by (cases p)
  show ?thesis
  proof (cases "jwtParse env (TrimPrefix authHeader ''Bearer '') jwks")
    case (Inl e)
    with Inr p show ?thesis
      by (simp add: deleteNamespaceHandler_def Let_def responseStatus_def JSON_def newContext_def
            StatusInternalServerError_def split: sum.splits)
  next
    case tok: (Inr tok)
    from unauth Inr p tok have "jwtValidateTime env tok \<noteq> None \<or> scopeValidator tok \<noteq> None"
      unfolding scopeValidator_accepts_iff by blast
    then obtain e where "jwtValidate env tok = Some e"
      by (cases "jwtValidateTime env tok") (auto simp: jwtValidate_def)
    with Inr p tok show ?thesis
      by (simp add: deleteNamespaceHandler_def Let_def responseStatus_def JSON_def newContext_def
            StatusInternalServerError_def split: sum.splits)
  qed
qed

theorem unauthorized_delete_witness:
  "snd (deleteNamespaceHandler (memoryRegistry True True) newContext ''/foo'' ''Bearer k1|storage.read:/''
          [namespaceFoo Approved]) = [namespaceFoo Approved]
   \<and> responseStatus (fst (deleteNamespaceHandler (memoryRegistry True True) newContext ''/foo''
          ''Bearer k1|storage.read:/'' [namespaceFoo Approved])) = 500
   \<and> snd (deleteNamespaceHandler (memoryRegistry True True) newContext ''/foo'' ''Bearer k1''
          [namespaceFoo Approved]) = [namespaceFoo Approved]
   \<and> responseStatus (fst (deleteNamespaceHandler (memoryRegistry True True) newContext ''/foo''
          ''Bearer k1'' [namespaceFoo Approved])) = 500
   \<and> snd (deleteNamespaceHandler (memoryRegistry True True) newContext ''/foo''
          ''Bearer k2|pelican.namespace_delete'' [namespaceFoo Approved]) = [namespaceFoo Approved]
   \<and> responseStatus (fst (deleteNamespaceHandler (memoryRegistry True True) newContext ''/foo''
          ''Bearer k2|pelican.namespace_delete'' [namespaceFoo Approved])) = 500
   \<and> snd (deleteNamespaceHandler (memoryRegistry True True) newContext ''/foo'' []
          [namespaceFoo Approved]) = [namespaceFoo Approved]
   \<and> responseStatus (fst (deleteNamespaceHandler (memoryRegistry True True) newContext ''/foo'' []
          [namespaceFoo Approved])) = 500"
proof -
  let ?env = "memoryRegistry True True" and ?db = "[namespaceFoo Approved]"
  let ?denied = "\<lambda>tok. jwtValidateTime ?env tok \<noteq> None \<or>
      \<not> (\<exists>scope. map_of (claims tok) ''scope'' = Some (ClaimString scope)
                  \<and> ''pelican.namespace_delete'' \<in> set (splitSpace scope))"
  have jw: "getNamespaceJwksByPrefix ?env ''/foo'' ?db = Inr (jwks, md) \<Longrightarrow> jwks = [''k1'']" for jwks md
    by (simp add: memoryRegistry_def lookupNamespace_def namespaceFoo_def)
  have e: "''/foo'' \<noteq> [] \<and> namespaceExists ?env ''/foo'' ?db = Inr True"
    by (simp add: memoryRegistry_def lookupNamespace_def namespaceFoo_def)
  have p1: "jwtParse ?env (TrimPrefix ''Bearer k1|storage.read:/'' ''Bearer '') [''k1'']
              = Inr \<lparr>claims = [(''scope'', ClaimString ''storage.read:/'')]\<rparr>"
    by code_simp
  have p2: "jwtParse ?env (TrimPrefix ''Bearer k1'' ''Bearer '') [''k1''] = Inr \<lparr>claims = []\<rparr>"
    by code_simp
  have p3: "jwtParse ?env (TrimPrefix ''Bearer k2|pelican.namespace_delete'' ''Bearer '') [''k1'']
              = Inl (Ext ''failed to parse token'')"
    by code_simp
  have p4: "jwtParse ?env (TrimPrefix [] ''Bearer '') [''k1''] = Inl (Ext ''failed to parse token'')"
    by code_simp
  have u1: "\<forall>jwks md tok. getNamespaceJwksByPrefix ?env ''/foo'' ?db = Inr (jwks, md) \<longrightarrow>
      jwtParse ?env (TrimPrefix ''Bearer k1|storage.read:/'' ''Bearer '') jwks = Inr tok \<longrightarrow> ?denied tok"
  proof (intro allI impI)
    fix jwks md tok
    assume "getNamespaceJwksByPrefix ?env ''/foo'' ?db = Inr (jwks, md)"
      and t: "jwtParse ?env (TrimPrefix ''Bearer k1|storage.read:/'' ''Bearer '') jwks = Inr tok"
    from jw [OF this(1)] t p1 have "tok = \<lparr>claims = [(''scope'', ClaimString ''storage.read:/'')]\<rparr>"
      by simp
    then show "?denied tok" by simp
  qed
  have u2: "\<forall>jwks md tok. getNamespaceJwksByPrefix ?env ''/foo'' ?db = Inr (jwks, md) \<longrightarrow>
      jwtParse ?env (TrimPrefix ''Bearer k1'' ''Bearer '') jwks = Inr tok \<longrightarrow> ?denied tok"
  proof (intro allI impI)
    fix jwks md tok
    assume "getNamespaceJwksByPrefix ?env ''/foo'' ?db = Inr (jwks, md)"
      and t: "jwtParse ?env (TrimPrefix ''Bearer k1'' ''Bearer '') jwks = Inr tok"
    from jw [OF this(1)] t p2 have "tok = \<lparr>claims = []\<rparr>" by simp
    then show "?denied tok" by simp
  qed
  have u3: "\<forall>jwks md tok. getNamespaceJwksByPrefix ?env ''/foo'' ?db = Inr (jwks, md) \<longrightarrow>
      jwtParse ?env (TrimPrefix ''Bearer k2|pelican.namespace_delete'' ''Bearer '') jwks = Inr tok
      \<longrightarrow> ?denied tok"
  proof (intro allI impI)
    fix jwks md tok
    assume "getNamespaceJwksByPrefix ?env ''/foo'' ?db = Inr (jwks, md)"
      and t: "jwtParse ?env (TrimPrefix ''Bearer k2|pelican.namespace_delete'' ''Bearer '') jwks = Inr tok"
    from jw [OF this(1)] t p3 have False by simp
    then show "?denied tok" ..
  qed
  have u4: "\<forall>jwks md tok. getNamespaceJwksByPrefix ?env ''/foo'' ?db = Inr (jwks, md) \<longrightarrow>
      jwtParse ?env (TrimPrefix [] ''Bearer '') jwks = Inr tok \<longrightarrow> ?denied tok"
  proof (intro allI impI)
    fix jwks md tok
    assume "getNamespaceJwksByPrefix ?env ''/foo'' ?db = Inr (jwks, md)"
      and t: "jwtParse ?env (TrimPrefix [] ''Bearer '') jwks = Inr tok"
    from jw [OF this(1)] t p4 have False by simp
    then show "?denied tok" ..
  qed
  show ?thesis
    using unauthorized_delete [OF u1] unauthorized_delete [OF u2] unauthorized_delete [OF u3]
      unauthorized_delete [OF u4] e
    by blast
qed

subsection \<open>The key set of a prefix\<close>





end
